theory Spec2Isabelle
  imports Main "HOL-Library.AList"
begin

section \<open>JavaScript values\<close>

text \<open>
  The server of \<^verbatim>\<open>src/src/UploadDataset.jsx\<close> (its second document, the Express
  application) keeps its jobs in a plain object, \<^verbatim>\<open>const jobs = {}\<close>, and reads
  request bodies that hold any JSON. The values it handles:
  \<^item> \<open>JNum\<close> holds a number as its rendering \<^verbatim>\<open>String(n)\<close>, the only thing the
    handlers observe of a number besides its truthiness (\<open>0\<close>, \<open>-0\<close>, both rendered
    \<open>''0''\<close>, and \<open>NaN\<close> are the falsy ones);
  \<^item> \<open>JArr\<close> holds the elements of an array and the named properties set on it;
  \<^item> \<open>JFn\<close> is a built-in function (its name and the properties set on it).
  An object is copied where the source shares it: a holder shows the object as it was
  when it was stored.
\<close>

datatype jsval =
    JUndefined
  | JNull
  | JBool bool
  | JNum string
  | JStr string
  | JArr "jsval list" "(string \<times> jsval) list"
  | JObj "(string \<times> jsval) list"
  | JFn string "(string \<times> jsval) list"

text \<open>What \<^verbatim>\<open>if (v)\<close>, \<^verbatim>\<open>!v\<close> and \<^verbatim>\<open>v || d\<close> test.\<close>

fun truthy :: "jsval \<Rightarrow> bool" where
  "truthy JUndefined = False"
| "truthy JNull = False"
| "truthy (JBool b) = b"
| "truthy (JNum n) = (n \<noteq> ''0'' \<and> n \<noteq> ''NaN'')"
| "truthy (JStr s) = (s \<noteq> [])"
| "truthy (JArr xs ps) = True"
| "truthy (JObj ps) = True"
| "truthy (JFn n ps) = True"

text \<open>\<^verbatim>\<open>a || b\<close>\<close>

definition js_or :: "jsval \<Rightarrow> jsval \<Rightarrow> jsval" where
  "js_or a b = (if truthy a then a else b)"

fun join_comma :: "string list \<Rightarrow> string" where
  "join_comma [] = []"
| "join_comma [x] = x"
| "join_comma (x # y # ys) = x @ '','' @ join_comma (y # ys)"

text \<open>
  The property key that \<^verbatim>\<open>jobs[v]\<close> uses for a value \<open>v\<close> (ToPropertyKey, which is
  ToString for these values); \<open>None\<close> is the TypeError of an object that cannot be
  converted: one with an own \<^verbatim>\<open>toString\<close> property, which in a request body is never
  a function, so that the inherited \<^verbatim>\<open>valueOf\<close> is tried and returns the object itself.
  An array is joined with commas, \<^verbatim>\<open>null\<close> and \<^verbatim>\<open>undefined\<close> elements as empty strings.
\<close>

fun to_key :: "jsval \<Rightarrow> string option" where
  "to_key JUndefined = Some ''undefined''"
| "to_key JNull = Some ''null''"
| "to_key (JBool b) = Some (if b then ''true'' else ''false'')"
| "to_key (JNum n) = Some n"
| "to_key (JStr s) = Some s"
| "to_key (JArr xs ps) =
     map_option join_comma
       (those (map (\<lambda>x. if x = JUndefined \<or> x = JNull then Some [] else to_key x) xs))"
| "to_key (JObj ps) =
     (case map_of ps ''toString'' of None \<Rightarrow> Some ''[object Object]'' | Some f \<Rightarrow> None)"
| "to_key (JFn n ps) = Some (''function '' @ n @ ''() { [native code] }'')"

text \<open>The own named properties of a value; a primitive has none.\<close>

fun own_props :: "jsval \<Rightarrow> (string \<times> jsval) list" where
  "own_props (JObj ps) = ps"
| "own_props (JArr xs ps) = ps"
| "own_props (JFn n ps) = ps"
| "own_props v = []"

text \<open>
  \<^verbatim>\<open>v[k]\<close> for a value that is not \<^verbatim>\<open>null\<close> or \<^verbatim>\<open>undefined\<close>, and a name \<open>k\<close> that is
  neither an array index nor defined by a prototype other than \<^verbatim>\<open>Object.prototype\<close>
  (the handlers read \<^verbatim>\<open>jobId\<close>, \<^verbatim>\<open>status\<close>, \<^verbatim>\<open>display_metric\<close> and \<^verbatim>\<open>message\<close>): the
  own property, else the one inherited from \<^verbatim>\<open>Object.prototype\<close>, whose properties
  are \<open>P\<close>, else \<^verbatim>\<open>undefined\<close>.
\<close>

definition get_member :: "(string \<rightharpoonup> jsval) \<Rightarrow> jsval \<Rightarrow> string \<Rightarrow> jsval" where
  "get_member P v k =
     (case map_of (own_props v) k of
        Some x \<Rightarrow> x
      | None \<Rightarrow> (case P k of Some x \<Rightarrow> x | None \<Rightarrow> JUndefined))"

text \<open>
  \<^verbatim>\<open>v[k] = x\<close> in sloppy mode (the file is a CommonJS module without \<^verbatim>\<open>"use strict"\<close>):
  an object gets or updates its own property; on a primitive the assignment is
  silently dropped.
\<close>

fun set_member :: "jsval \<Rightarrow> string \<Rightarrow> jsval \<Rightarrow> jsval" where
  "set_member (JObj ps) k x = JObj (AList.update k x ps)"
| "set_member (JArr xs ps) k x = JArr xs (AList.update k x ps)"
| "set_member (JFn n ps) k x = JFn n (AList.update k x ps)"
| "set_member v k x = v"

section \<open>The job store\<close>

text \<open>
  A job object: \<^verbatim>\<open>{ id, status, progress, email }\<close> as the upload handler creates
  it; \<^verbatim>\<open>message\<close> and \<^verbatim>\<open>result\<close> are added later and are \<open>None\<close> while the object has
  no such property. \<^verbatim>\<open>result\<close> is the object \<^verbatim>\<open>{ display_metric, message }\<close>.
\<close>

datatype result = Result jsval jsval

record job =
  job_id :: string
  status :: jsval
  progress :: nat
  email :: jsval
  message :: "string option"
  result :: "result option"

text \<open>
  The body that the fire-and-forget \<^verbatim>\<open>axios.post\<close> sends to the workflow; its fourth
  member, \<^verbatim>\<open>callback_url\<close>, and the address it goes to come from the environment.
\<close>

record trigger =
  t_csvUrl :: string
  t_email :: jsval
  t_jobId :: string

text \<open>
  The state of the process:
  \<^item> \<open>jobs\<close>: the own properties of the object \<^verbatim>\<open>jobs\<close>;
  \<^item> \<open>proto\<close>: the properties of \<^verbatim>\<open>Object.prototype\<close>, which \<^verbatim>\<open>jobs\<close> and every request
    body inherit (its accessor \<^verbatim>\<open>__proto__\<close> apart, which \<open>jobs_get\<close> treats);
  \<^item> \<open>disk\<close>: the paths of the files that exist;
  \<^item> \<open>pending\<close>: the upload handlers suspended at their \<^verbatim>\<open>await\<close>, by job id, each
    with its \<^verbatim>\<open>csvPath\<close> and \<^verbatim>\<open>email\<close>;
  \<^item> \<open>outbox\<close>: the workflow triggers sent so far.
\<close>

record state =
  jobs :: "string \<rightharpoonup> job"
  proto :: "string \<rightharpoonup> jsval"
  disk :: "string set"
  pending :: "string \<rightharpoonup> (string \<times> jsval)"
  outbox :: "trigger list"

text \<open>The properties of \<^verbatim>\<open>Object.prototype\<close> when the process starts.\<close>

definition object_prototype :: "string \<rightharpoonup> jsval" where
  "object_prototype = map_of
     [(''constructor'', JFn ''Object'' []),
      (''__defineGetter__'', JFn ''__defineGetter__'' []),
      (''__defineSetter__'', JFn ''__defineSetter__'' []),
      (''hasOwnProperty'', JFn ''hasOwnProperty'' []),
      (''__lookupGetter__'', JFn ''__lookupGetter__'' []),
      (''__lookupSetter__'', JFn ''__lookupSetter__'' []),
      (''isPrototypeOf'', JFn ''isPrototypeOf'' []),
      (''propertyIsEnumerable'', JFn ''propertyIsEnumerable'' []),
      (''toString'', JFn ''toString'' []),
      (''valueOf'', JFn ''valueOf'' []),
      (''toLocaleString'', JFn ''toLocaleString'' [])]"

definition init :: state where
  "init = \<lparr>jobs = Map.empty, proto = object_prototype, disk = {},
            pending = Map.empty, outbox = []\<rparr>"

text \<open>
  What \<^verbatim>\<open>jobs[k]\<close> evaluates to: the own property, else what the prototype chain
  gives: \<^verbatim>\<open>Object.prototype\<close> itself for \<^verbatim>\<open>__proto__\<close>, one of its properties, or
  \<^verbatim>\<open>undefined\<close>.
\<close>

datatype lookup = Missing | OwnJob job | ProtoItself | Inherited jsval

definition jobs_get :: "state \<Rightarrow> string \<Rightarrow> lookup" where
  "jobs_get st k =
     (case jobs st k of
        Some j \<Rightarrow> OwnJob j
      | None \<Rightarrow>
          if k = ''__proto__'' then ProtoItself
          else (case proto st k of Some v \<Rightarrow> Inherited v | None \<Rightarrow> Missing))"

fun found :: "lookup \<Rightarrow> bool" where
  "found Missing = False"
| "found (OwnJob j) = True"
| "found ProtoItself = True"
| "found (Inherited v) = truthy v"

section \<open>Responses\<close>

text \<open>
  A response is the HTTP status and the value given to \<^verbatim>\<open>res.json\<close>: a job object,
  another value, or \<^verbatim>\<open>Object.prototype\<close>.
\<close>

datatype body = JobBody job | JsonBody jsval | PrototypeBody

datatype response = Response nat body

fun code :: "response \<Rightarrow> nat" where
  "code (Response c b) = c"

definition job_not_found :: response where
  "job_not_found =
     Response 404 (JsonBody (JObj [(''status'', JStr ''error''), (''message'', JStr ''Job not found'')]))"

definition callback_processed :: response where
  "callback_processed =
     Response 200 (JsonBody (JObj [(''status'', JStr ''success''), (''message'', JStr ''Callback processed'')]))"

definition callback_failed :: response where
  "callback_failed =
     Response 500 (JsonBody (JObj [(''status'', JStr ''error''), (''message'', JStr ''Failed to process callback'')]))"

section \<open>Status query: \<^verbatim>\<open>app.get("/api/status/:jobId")\<close>\<close>

definition status_query :: "string \<Rightarrow> state \<Rightarrow> response" where
  "status_query jobId st =
     (case jobs_get st jobId of
        Missing \<Rightarrow> job_not_found
      | OwnJob j \<Rightarrow> Response 200 (JobBody j)
      | ProtoItself \<Rightarrow> Response 200 PrototypeBody
      | Inherited v \<Rightarrow> if truthy v then Response 200 (JsonBody v) else job_not_found)"

section \<open>Callback: \<^verbatim>\<open>app.post("/api/callback")\<close>\<close>

text \<open>
  Assignments \<^verbatim>\<open>jobs[k].n = x\<close> on what \<^verbatim>\<open>jobs[k]\<close> is: on an own job they are the record
  update \<open>f\<close>, on \<^verbatim>\<open>Object.prototype\<close> or on a value inherited from it they set the
  properties \<open>kvs\<close>.
\<close>

definition assign_members ::
    "string \<Rightarrow> (job \<Rightarrow> job) \<Rightarrow> (string \<times> jsval) list \<Rightarrow> state \<Rightarrow> state" where
  "assign_members k f kvs st =
     (case jobs st k of
        Some j \<Rightarrow> st\<lparr>jobs := (jobs st)(k \<mapsto> f j)\<rparr>
      | None \<Rightarrow>
          if k = ''__proto__'' then
            st\<lparr>proto := foldl (\<lambda>P (n, x). P(n \<mapsto> x)) (proto st) kvs\<rparr>
          else (case proto st k of
                  Some v \<Rightarrow> st\<lparr>proto := (proto st)(k \<mapsto> foldl (\<lambda>v (n, x). set_member v n x) v kvs)\<rparr>
                | None \<Rightarrow> st))"

text \<open>
  The three assignments \<^verbatim>\<open>jobs[k].status = s; jobs[k].progress = 100;
  jobs[k].result = { display_metric, message }\<close>.
\<close>

definition result_object :: "jsval \<Rightarrow> jsval \<Rightarrow> jsval" where
  "result_object dm msg = JObj [(''display_metric'', dm), (''message'', msg)]"

definition assign_result :: "string \<Rightarrow> jsval \<Rightarrow> jsval \<Rightarrow> jsval \<Rightarrow> state \<Rightarrow> state" where
  "assign_result k s dm msg st =
     assign_members k
       (\<lambda>j. j\<lparr>status := s, progress := 100, result := Some (Result dm msg)\<rparr>)
       [(''status'', s), (''progress'', JNum ''100''), (''result'', result_object dm msg)] st"

text \<open>
  The key of the registry entry a callback body addresses: \<^verbatim>\<open>jobId && jobs[jobId]\<close>.
  \<open>Inl ()\<close> is a TypeError (destructuring \<^verbatim>\<open>undefined\<close> or \<^verbatim>\<open>null\<close>, or a \<^verbatim>\<open>jobId\<close>
  that cannot be made a key), \<open>Inr None\<close> a body that addresses nothing.
\<close>

definition callback_target :: "state \<Rightarrow> jsval \<Rightarrow> unit + string option" where
  "callback_target st b =
     (if b = JUndefined \<or> b = JNull then Inl ()
      else
        let jobId = get_member (proto st) b ''jobId'' in
        if truthy jobId then
          (case to_key jobId of
             None \<Rightarrow> Inl ()
           | Some k \<Rightarrow> if found (jobs_get st k) then Inr (Some k) else Inr None)
        else Inr None)"

definition callback :: "jsval \<Rightarrow> state \<Rightarrow> state \<times> response" where
  "callback b st =
     (case callback_target st b of
        Inl e \<Rightarrow> (st, callback_failed)
      | Inr None \<Rightarrow> (st, callback_processed)
      | Inr (Some k) \<Rightarrow>
          (assign_result k
             (js_or (get_member (proto st) b ''status'') (JStr ''completed''))
             (get_member (proto st) b ''display_metric'')
             (get_member (proto st) b ''message'') st,
           callback_processed))"

section \<open>Upload: \<^verbatim>\<open>app.post("/api/upload")\<close>\<close>

text \<open>
  The multipart request: the original name of its \<^verbatim>\<open>csv\<close> file part, if it has one,
  and its \<^verbatim>\<open>email\<close> field (\<open>JUndefined\<close> when it has none).
\<close>

record upload_request =
  csv_originalname :: "string option"
  body_email :: jsval

text \<open>
  The middleware \<^verbatim>\<open>upload.fields([{ name: "csv", maxCount: 1 }])\<close> with the disk storage
  of the source (destination \<^verbatim>\<open>UPLOAD_DIR = "uploads"\<close>, file name the original name):
  it writes the file and gives the handler its path, \<^verbatim>\<open>req.files.csv[0].path\<close>. The
  original name is a plain file name, which \<^verbatim>\<open>path.join\<close> leaves as it is.
\<close>

definition multer_fields :: "upload_request \<Rightarrow> state \<Rightarrow> state \<times> string option" where
  "multer_fields r st =
     (case csv_originalname r of
        None \<Rightarrow> (st, None)
      | Some n \<Rightarrow> (st\<lparr>disk := insert (''uploads/'' @ n) (disk st)\<rparr>, Some (''uploads/'' @ n)))"

text \<open>
  What the content store answers to \<^verbatim>\<open>supabase.storage.from("ml-datasets").upload\<close>:
  the stored object (here the public URL that \<^verbatim>\<open>getPublicUrl\<close> derives from its path),
  an error object \<^verbatim>\<open>csvError\<close> with its message (empty when it has none), or a
  rejected promise with the message of the error thrown.
\<close>

datatype storage_result = Stored string | StorageError string | StorageRejected string

text \<open>
  The \<^verbatim>\<open>catch\<close> block: \<^verbatim>\<open>if (jobs[jobId]) { jobs[jobId].status = "error";
  jobs[jobId].message = error.message }\<close>, then the 500 response.
\<close>

definition upload_failed :: "string \<Rightarrow> response" where
  "upload_failed msg =
     Response 500 (JsonBody (JObj [(''status'', JStr ''error''),
       (''message'', JStr (''Upload process failed: '' @ msg)), (''detail'', JNull)]))"

definition upload_catch :: "string \<Rightarrow> string \<Rightarrow> state \<Rightarrow> state \<times> response" where
  "upload_catch jobId msg st =
     ((if found (jobs_get st jobId) then
         assign_members jobId (\<lambda>j. j\<lparr>status := JStr ''error'', message := Some msg\<rparr>)
           [(''status'', JStr ''error''), (''message'', JStr msg)] st
       else st),
      upload_failed msg)"

text \<open>
  The handler up to its \<^verbatim>\<open>await\<close>: validation, the new job, \<^verbatim>\<open>fs.readFileSync(csvPath)\<close>
  (which throws when the file does not exist) and the call of the content store.
  \<open>jobId\<close> is what \<^verbatim>\<open>uuidv4()\<close> returned. \<open>Awaiting p\<close>: the handler is suspended while
  the bytes of \<open>p\<close> go to the bucket under \<^verbatim>\<open>uploads/${Date.now()}_${path.basename(p)}\<close>.
\<close>

datatype upload_phase = Responded response | Awaiting string

definition new_job :: "string \<Rightarrow> jsval \<Rightarrow> job" where
  "new_job jobId em =
     \<lparr>job_id = jobId, status = JStr ''uploading'', progress = 10, email = em,
      message = None, result = None\<rparr>"

definition enoent :: "string \<Rightarrow> string" where
  "enoent p = ''ENOENT: no such file or directory, open '' @ [CHR 0x27] @ p @ [CHR 0x27]"

definition upload_begin :: "string option \<Rightarrow> jsval \<Rightarrow> string \<Rightarrow> state \<Rightarrow> state \<times> upload_phase" where
  "upload_begin csv em jobId st =
     (case csv of
        None \<Rightarrow>
          (st, Responded (Response 400 (JsonBody (JObj [(''message'', JStr ''CSV file is required'')]))))
      | Some csvPath \<Rightarrow>
          if \<not> truthy em then
            (st, Responded (Response 400 (JsonBody (JObj [(''message'', JStr ''Email is required'')]))))
          else
            let st1 = st\<lparr>jobs := (jobs st)(jobId \<mapsto> new_job jobId em)\<rparr> in
            if csvPath \<in> disk st1 then
              (st1\<lparr>pending := (pending st1)(jobId \<mapsto> (csvPath, em))\<rparr>, Awaiting csvPath)
            else
              (case upload_catch jobId (enoent csvPath) st1 of (st2, r) \<Rightarrow> (st2, Responded r)))"

definition upload_post :: "upload_request \<Rightarrow> string \<Rightarrow> state \<Rightarrow> state \<times> upload_phase" where
  "upload_post r jobId st =
     (case multer_fields r st of (st0, csv) \<Rightarrow> upload_begin csv (body_email r) jobId st0)"

text \<open>
  The TypeError of \<^verbatim>\<open>jobs[jobId].status = "training"\<close> when \<^verbatim>\<open>jobs[jobId]\<close> is \<^verbatim>\<open>undefined\<close>
  or \<^verbatim>\<open>null\<close>.
\<close>

fun set_error :: "lookup \<Rightarrow> string option" where
  "set_error Missing = Some ''Cannot set properties of undefined (setting 'status')''"
| "set_error (Inherited JUndefined) = Some ''Cannot set properties of undefined (setting 'status')''"
| "set_error (Inherited JNull) = Some ''Cannot set properties of null (setting 'status')''"
| "set_error l = None"

definition upload_complete :: "string \<Rightarrow> response" where
  "upload_complete jobId =
     Response 200 (JsonBody (JObj [(''status'', JStr ''success''),
       (''message'', JStr ''Upload complete. Results will be emailed.''), (''jobId'', JStr jobId)]))"

text \<open>
  The handler from its \<^verbatim>\<open>await\<close> on, given the answer of the content store: the
  \<^verbatim>\<open>catch\<close> block on a failure; else status \<^verbatim>\<open>training\<close>, progress 40, the local file
  unlinked if it exists, the workflow triggered without waiting, and the response.
  No handler suspended for \<open>jobId\<close>: nothing happens.
\<close>

definition upload_resume :: "string \<Rightarrow> storage_result \<Rightarrow> state \<Rightarrow> state \<times> response option" where
  "upload_resume jobId outcome st =
     (case pending st jobId of
        None \<Rightarrow> (st, None)
      | Some (csvPath, em) \<Rightarrow>
          let st0 = st\<lparr>pending := (pending st)(jobId := None)\<rparr> in
          map_prod id Some
            (case outcome of
               StorageRejected m \<Rightarrow> upload_catch jobId m st0
             | StorageError m \<Rightarrow>
                 upload_catch jobId
                   (''Supabase upload failed: '' @ (if m = [] then ''Unknown error'' else m)) st0
             | Stored csvUrl \<Rightarrow>
                 (case set_error (jobs_get st0 jobId) of
                    Some m \<Rightarrow> upload_catch jobId m st0
                  | None \<Rightarrow>
                      let st1 = assign_members jobId
                                  (\<lambda>j. j\<lparr>status := JStr ''training'', progress := 40\<rparr>)
                                  [(''status'', JStr ''training''), (''progress'', JNum ''40'')] st0;
                          st2 = st1\<lparr>disk := disk st1 - {csvPath}\<rparr>;
                          st3 = st2\<lparr>outbox := outbox st2 @
                                  [\<lparr>t_csvUrl = csvUrl, t_email = em, t_jobId = jobId\<rparr>]\<rparr>
                      in (st3, upload_complete jobId))))"

section \<open>Runs of the server\<close>

text \<open>
  Node runs one handler at a time, each up to its next \<^verbatim>\<open>await\<close>. An event is a
  request arriving (for an upload, together with the id that \<^verbatim>\<open>uuidv4()\<close> draws for
  it) or the content store answering a suspended upload handler.
\<close>

datatype event =
    StatusGet string
  | CallbackPost jsval
  | UploadPost upload_request string
  | StorageSettled string storage_result

fun step :: "state \<Rightarrow> event \<Rightarrow> state" where
  "step st (StatusGet k) = st"
| "step st (CallbackPost b) = fst (callback b st)"
| "step st (UploadPost r jobId) = fst (upload_post r jobId st)"
| "step st (StorageSettled jobId outcome) = fst (upload_resume jobId outcome st)"

definition run :: "state \<Rightarrow> event list \<Rightarrow> state" where
  "run st es = foldl step st es"

text \<open>
  The ids of \<^verbatim>\<open>uuidv4()\<close>: 36 characters, hexadecimal digits and dashes. Such an id is
  not \<^verbatim>\<open>__proto__\<close>, the one key for which \<^verbatim>\<open>jobs[jobId] = { ... }\<close> would not create an
  own property.
\<close>

definition is_uuid :: "string \<Rightarrow> bool" where
  "is_uuid s = (length s = 36 \<and> list_all (\<lambda>c. c \<in> set ''0123456789abcdef-'') s)"

section \<open>Notions used by the properties\<close>

text \<open>The own member \<open>k\<close> of a value, \<^verbatim>\<open>undefined\<close> when it has none.\<close>

definition own_member :: "jsval \<Rightarrow> string \<Rightarrow> jsval" where
  "own_member v k = (case map_of (own_props v) k of Some x \<Rightarrow> x | None \<Rightarrow> JUndefined)"

text \<open>
  The job id that a response returns to the caller: the \<^verbatim>\<open>jobId\<close> member of the object
  given to \<^verbatim>\<open>res.json\<close>, \<^verbatim>\<open>undefined\<close> when it has none (a job object has the members
  \<^verbatim>\<open>id\<close>, \<^verbatim>\<open>status\<close>, \<^verbatim>\<open>progress\<close>, \<^verbatim>\<open>email\<close>, \<^verbatim>\<open>message\<close> and \<^verbatim>\<open>result\<close>, no \<^verbatim>\<open>jobId\<close>).
\<close>

fun returned_job_id :: "response \<Rightarrow> jsval" where
  "returned_job_id (Response c (JsonBody v)) = own_member v ''jobId''"
| "returned_job_id (Response c (JobBody j)) = JUndefined"
| "returned_job_id (Response c PrototypeBody) = JUndefined"

text \<open>The status values that the data model of the specification lists.\<close>

definition documented_statuses :: "jsval set" where
  "documented_statuses = {JStr ''uploading'', JStr ''training'', JStr ''completed'', JStr ''error''}"

text \<open>The property names that the handlers assign through \<^verbatim>\<open>jobs[k]\<close>.\<close>

definition written_names :: "string set" where
  "written_names = {''status'', ''progress'', ''result'', ''message''}"

text \<open>An upload request that passes validation and so creates the record of job \<open>k\<close>.\<close>

fun creates :: "event \<Rightarrow> string \<Rightarrow> bool" where
  "creates (UploadPost r jobId) k =
     (jobId = k \<and> csv_originalname r \<noteq> None \<and> truthy (body_email r))"
| "creates e k = False"

text \<open>A callback that, in state \<open>st\<close>, addresses the record that \<^verbatim>\<open>jobs\<close> owns under \<open>k\<close>.\<close>

fun reports :: "state \<Rightarrow> event \<Rightarrow> string \<Rightarrow> bool" where
  "reports st (CallbackPost b) k = (callback_target st b = Inr (Some k) \<and> jobs st k \<noteq> None)"
| "reports st e k = False"

text \<open>
  Along the events \<open>es\<close> run from \<open>st\<close>: has a callback addressed the record of \<open>k\<close>
  since that record was last created (\<open>acc\<close>: whether one had before \<open>es\<close>)?
\<close>

fun reported_since :: "string \<Rightarrow> bool \<Rightarrow> state \<Rightarrow> event list \<Rightarrow> bool" where
  "reported_since k acc st [] = acc"
| "reported_since k acc st (e # es) =
     reported_since k (if creates e k then False else acc \<or> reports st e k) (step st e) es"

text \<open>The events of the upload of job \<open>k\<close>: its request and the answer of the content store.\<close>

fun concerns_upload :: "event \<Rightarrow> string \<Rightarrow> bool" where
  "concerns_upload (UploadPost r jobId) k = (jobId = k)"
| "concerns_upload (StorageSettled jobId outcome) k = (jobId = k)"
| "concerns_upload e k = False"

text \<open>The events that concern job \<open>k\<close> in state \<open>st\<close>: those of its upload and the
  callbacks that address it.\<close>

fun touches :: "state \<Rightarrow> event \<Rightarrow> string \<Rightarrow> bool" where
  "touches st (StatusGet q) k = False"
| "touches st (CallbackPost b) k = (callback_target st b = Inr (Some k))"
| "touches st (UploadPost r jobId) k = (jobId = k)"
| "touches st (StorageSettled jobId outcome) k = (jobId = k)"

text \<open>
  Correct operation: \<^verbatim>\<open>uuidv4()\<close> draws a well-formed id that no job has yet, and the
  workflow reports on a job only once the upload handler of that job has finished (it
  learns the id from the trigger, the handler's last act).
\<close>

fun in_order :: "state \<Rightarrow> event \<Rightarrow> bool" where
  "in_order st (UploadPost r jobId) = (is_uuid jobId \<and> jobs st jobId = None)"
| "in_order st (CallbackPost b) =
     (case callback_target st b of Inr (Some k) \<Rightarrow> pending st k = None | _ \<Rightarrow> True)"
| "in_order st e = True"

fun orderly :: "state \<Rightarrow> event list \<Rightarrow> bool" where
  "orderly st [] = True"
| "orderly st (e # es) = (in_order st e \<and> orderly (step st e) es)"

text \<open>
  What holds of the record of \<open>k\<close>, if there is one, in every state the server reaches:
  it has a result exactly when \<open>acc\<close> says so, and it has one when it is completed.
\<close>

definition result_inv :: "string \<Rightarrow> bool \<Rightarrow> state \<Rightarrow> bool" where
  "result_inv k acc st =
     (\<forall>j. jobs st k = Some j \<longrightarrow>
        ((result j \<noteq> None) = acc) \<and> (status j = JStr ''completed'' \<longrightarrow> result j \<noteq> None))"

text \<open>
  The progress values of the source, and 10 for a job whose upload handler is still
  suspended.
\<close>

definition progress_inv :: "state \<Rightarrow> bool" where
  "progress_inv st =
     (\<forall>k j. jobs st k = Some j \<longrightarrow>
        progress j \<in> {10, 40, 100} \<and> (pending st k \<noteq> None \<longrightarrow> progress j = 10))"

section \<open>Example inputs\<close>

definition job1 :: string where
  "job1 = ''123e4567-e89b-42d3-a456-426614174000''"

definition upload1 :: upload_request where
  "upload1 = \<lparr>csv_originalname = Some ''data.csv'', body_email = JStr ''a@b.c''\<rparr>"

definition no_email :: upload_request where
  "no_email = \<lparr>csv_originalname = Some ''data.csv'', body_email = JUndefined\<rparr>"

definition accepted :: "event list" where
  "accepted = [UploadPost upload1 job1, StorageSettled job1 (Stored ''https://store/data.csv'')]"

definition job1_training :: job where
  "job1_training =
     \<lparr>job_id = job1, status = JStr ''training'', progress = 40, email = JStr ''a@b.c'',
      message = None, result = None\<rparr>"

definition st_training :: state where
  "st_training =
     \<lparr>jobs = [job1 \<mapsto> job1_training], proto = object_prototype, disk = {},
      pending = Map.empty,
      outbox = [\<lparr>t_csvUrl = ''https://store/data.csv'', t_email = JStr ''a@b.c'', t_jobId = job1\<rparr>]\<rparr>"

definition job1_completed :: job where
  "job1_completed =
     job1_training\<lparr>status := JStr ''completed'', progress := 100,
       result := Some (Result (JStr ''0.92'') (JStr ''done''))\<rparr>"

definition st_completed :: state where
  "st_completed = st_training\<lparr>jobs := [job1 \<mapsto> job1_completed]\<rparr>"

definition report :: "jsval \<Rightarrow> jsval" where
  "report s =
     JObj [(''jobId'', JStr job1), (''status'', s), (''display_metric'', JStr ''0.92''),
           (''message'', JStr ''done'')]"

definition pollute :: jsval where
  "pollute = JObj [(''jobId'', JStr ''__proto__''), (''status'', JStr ''pwned'')]"

section \<open>What each handler does to the state\<close>

lemma run_Nil [simp]: "run st [] = st"
  by (simp add: run_def)

lemma run_Cons [simp]: "run st (e # es) = run (step st e) es"
  by (simp add: run_def)

lemma run_append: "run st (es1 @ es2) = run (run st es1) es2"
  by (simp add: run_def)

lemma assign_members_own:
  "jobs st k = Some j \<Longrightarrow> assign_members k f kvs st = st\<lparr>jobs := (jobs st)(k \<mapsto> f j)\<rparr>"
  by (simp add: assign_members_def)

lemma assign_members_jobs:
  "jobs (assign_members k f kvs st) =
     (case jobs st k of Some j \<Rightarrow> (jobs st)(k \<mapsto> f j) | None \<Rightarrow> jobs st)"
  by (simp add: assign_members_def split: option.splits)

lemma assign_members_rest [simp]:
  "pending (assign_members k f kvs st) = pending st"
  "disk (assign_members k f kvs st) = disk st"
  "outbox (assign_members k f kvs st) = outbox st"
  by (simp_all add: assign_members_def split: option.splits)

lemma callback_own:
  assumes "callback_target st b = Inr (Some k)" and "jobs st k = Some j"
  shows "callback b st =
    (st\<lparr>jobs := (jobs st)(k \<mapsto>
         j\<lparr>status := js_or (get_member (proto st) b ''status'') (JStr ''completed''),
           progress := 100,
           result := Some (Result (get_member (proto st) b ''display_metric'')
                                  (get_member (proto st) b ''message''))\<rparr>)\<rparr>,
     callback_processed)"
  using assms by (simp add: callback_def assign_result_def assign_members_own)

lemma callback_target_jobs_upd:
  assumes "callback_target st b = Inr (Some k)"
  shows "callback_target (st\<lparr>jobs := (jobs st)(k \<mapsto> j')\<rparr>) b = Inr (Some k)"
  using assms
  by (auto simp: callback_target_def Let_def jobs_get_def split: if_splits option.splits)

lemma callback_target_own:
  assumes "map_of (own_props b) ''jobId'' = Some (JStr k)" and "k \<noteq> []" and "jobs st k = Some j"
  shows "callback_target st b = Inr (Some k)"
  using assms
  by (cases b) (auto simp: callback_target_def get_member_def jobs_get_def)

lemma callback_jobs:
  "jobs (fst (callback b st)) =
     (case callback_target st b of
        Inr (Some k) \<Rightarrow>
          (case jobs st k of
             Some j \<Rightarrow> (jobs st)(k \<mapsto>
               j\<lparr>status := js_or (get_member (proto st) b ''status'') (JStr ''completed''),
                 progress := 100,
                 result := Some (Result (get_member (proto st) b ''display_metric'')
                                        (get_member (proto st) b ''message''))\<rparr>)
           | None \<Rightarrow> jobs st)
      | _ \<Rightarrow> jobs st)"
  by (simp add: callback_def assign_result_def assign_members_jobs split: sum.splits option.splits)

lemma callback_rest [simp]:
  "pending (fst (callback b st)) = pending st"
  "disk (fst (callback b st)) = disk st"
  "outbox (fst (callback b st)) = outbox st"
  by (simp_all add: callback_def assign_result_def split: sum.splits option.splits)

lemma upload_catch_jobs:
  "jobs (fst (upload_catch k msg st)) =
     (case jobs st k of
        Some j \<Rightarrow> (jobs st)(k \<mapsto> j\<lparr>status := JStr ''error'', message := Some msg\<rparr>)
      | None \<Rightarrow> jobs st)"
  by (simp add: upload_catch_def assign_members_jobs jobs_get_def split: option.splits)

lemma upload_catch_rest [simp]:
  "pending (fst (upload_catch k msg st)) = pending st"
  "disk (fst (upload_catch k msg st)) = disk st"
  "outbox (fst (upload_catch k msg st)) = outbox st"
  "snd (upload_catch k msg st) = upload_failed msg"
  by (simp_all add: upload_catch_def)

lemma upload_post_jobs:
  "jobs (fst (upload_post r jobId st)) =
     (if csv_originalname r \<noteq> None \<and> truthy (body_email r)
      then (jobs st)(jobId \<mapsto> new_job jobId (body_email r)) else jobs st)"
  by (auto simp: upload_post_def multer_fields_def upload_begin_def Let_def split: option.splits)

lemma upload_post_pending:
  "pending (fst (upload_post r jobId st)) =
     (case csv_originalname r of
        Some n \<Rightarrow>
          if truthy (body_email r)
          then (pending st)(jobId \<mapsto> (''uploads/'' @ n, body_email r)) else pending st
      | None \<Rightarrow> pending st)"
  by (auto simp: upload_post_def multer_fields_def upload_begin_def Let_def split: option.splits)

lemma upload_post_valid:
  assumes "csv_originalname r = Some n" and "truthy (body_email r)"
  shows "upload_post r jobId st =
     (st\<lparr>disk := insert (''uploads/'' @ n) (disk st),
         jobs := (jobs st)(jobId \<mapsto> new_job jobId (body_email r)),
         pending := (pending st)(jobId \<mapsto> (''uploads/'' @ n, body_email r))\<rparr>,
      Awaiting (''uploads/'' @ n))"
  using assms by (simp add: upload_post_def multer_fields_def upload_begin_def Let_def)

lemma upload_resume_jobs:
  "jobs (fst (upload_resume jobId outcome st)) =
     (case pending st jobId of
        None \<Rightarrow> jobs st
      | Some c \<Rightarrow>
         (case jobs st jobId of
            None \<Rightarrow> jobs st
          | Some j \<Rightarrow>
             (case outcome of
                Stored u \<Rightarrow> (jobs st)(jobId \<mapsto> j\<lparr>status := JStr ''training'', progress := 40\<rparr>)
              | StorageError m \<Rightarrow>
                  (jobs st)(jobId \<mapsto> j\<lparr>status := JStr ''error'',
                    message := Some (''Supabase upload failed: '' @
                                       (if m = [] then ''Unknown error'' else m))\<rparr>)
              | StorageRejected m \<Rightarrow>
                  (jobs st)(jobId \<mapsto> j\<lparr>status := JStr ''error'', message := Some m\<rparr>))))"
  by (auto simp: upload_resume_def Let_def upload_catch_jobs assign_members_jobs jobs_get_def
      split: option.splits storage_result.splits prod.splits)

lemma upload_resume_pending:
  "pending (fst (upload_resume jobId outcome st)) = (pending st)(jobId := None)"
  by (auto simp: upload_resume_def Let_def split: option.splits storage_result.splits prod.splits)

lemma upload_resume_suspended:
  assumes "pending st k = Some c" and "jobs st k = Some j"
  shows "\<exists>st' resp j'. upload_resume k outcome st = (st', Some resp) \<and> jobs st' k = Some j' \<and>
           (resp = upload_complete k \<and> status j' = JStr ''training'' \<or>
            (\<exists>m. resp = upload_failed m) \<and> status j' = JStr ''error'')"
  using assms
  by (cases outcome; cases c)
     (auto simp: upload_resume_def Let_def upload_catch_def jobs_get_def assign_members_own)

lemma upload_complete_returns [simp]:
  "code (upload_complete k) = 200" "returned_job_id (upload_complete k) = JStr k"
  by (simp_all add: upload_complete_def own_member_def)

lemma upload_failed_returns [simp]:
  "code (upload_failed m) = 500" "returned_job_id (upload_failed m) = JUndefined"
  by (simp_all add: upload_failed_def own_member_def)

lemma get_member_own:
  "P k = None \<Longrightarrow> get_member P v k = own_member v k"
  by (simp add: get_member_def own_member_def split: option.splits)

lemma step_untouched:
  assumes "jobs st k = Some j" and "\<not> touches st e k"
  shows "jobs (step st e) k = Some j"
proof (cases e)
  case (StatusGet q)
  with assms show ?thesis by simp
next
  case (CallbackPost b)
  with assms show ?thesis
    by (auto simp: callback_jobs split: sum.splits option.splits)
next
  case (UploadPost r jobId)
  with assms show ?thesis by (simp add: upload_post_jobs)
next
  case (StorageSettled jobId outcome)
  with assms show ?thesis
    by (auto simp: upload_resume_jobs split: option.splits storage_result.splits)
qed

lemma step_jobs_dom:
  assumes "jobs st k \<noteq> None"
  shows "jobs (step st e) k \<noteq> None"
proof (cases e)
  case (StatusGet q)
  with assms show ?thesis by simp
next
  case (CallbackPost b)
  with assms show ?thesis
    by (auto simp: callback_jobs split: sum.splits option.splits if_splits)
next
  case (UploadPost r jobId)
  with assms show ?thesis by (auto simp: upload_post_jobs)
next
  case (StorageSettled jobId outcome)
  with assms show ?thesis
    by (auto simp: upload_resume_jobs split: option.splits storage_result.splits if_splits)
qed

lemma step_pending_kept:
  assumes "pending st k = Some c" and "\<not> concerns_upload e k"
  shows "pending (step st e) k = Some c"
  using assms
  by (cases e) (auto simp: upload_post_pending upload_resume_pending split: option.splits)

lemma run_suspended:
  assumes "jobs st k \<noteq> None" and "pending st k = Some c"
    and "\<forall>e \<in> set es. \<not> concerns_upload e k"
  shows "jobs (run st es) k \<noteq> None \<and> pending (run st es) k = Some c"
  using assms
proof (induction es arbitrary: st)
  case Nil
  then show ?case by simp
next
  case (Cons e es)
  have "jobs (step st e) k \<noteq> None"
    using Cons.prems(1) by (rule step_jobs_dom)
  moreover have "pending (step st e) k = Some c"
    using Cons.prems(2,3) by (simp add: step_pending_kept)
  ultimately show ?case
    using Cons.IH Cons.prems(3) by simp
qed

section \<open>The example inputs, evaluated\<close>

lemma job1_nonempty: "job1 \<noteq> []"
  by (simp add: job1_def)

lemma job1_is_uuid: "is_uuid job1"
  by (simp add: is_uuid_def job1_def)

lemma object_prototype_simps [simp]:
  "object_prototype ''jobId'' = None" "object_prototype ''status'' = None"
  "object_prototype ''display_metric'' = None" "object_prototype ''message'' = None"
  "object_prototype job1 = None"
  by (simp_all add: object_prototype_def job1_def)

lemma run_accepted: "run init accepted = st_training"
  by (simp add: accepted_def st_training_def job1_training_def init_def upload_post_def
      multer_fields_def upload_begin_def upload_resume_def new_job_def jobs_get_def
      assign_members_def upload1_def Let_def)

lemma report_target: "callback_target st_training (report s) = Inr (Some job1)"
  by (simp add: callback_target_def get_member_def report_def st_training_def jobs_get_def
      job1_nonempty)

lemma report_members:
  "get_member (proto st_training) (report s) ''status'' = s"
  "get_member (proto st_training) (report s) ''display_metric'' = JStr ''0.92''"
  "get_member (proto st_training) (report s) ''message'' = JStr ''done''"
  by (simp_all add: get_member_def report_def st_training_def)

lemma st_training_job1: "jobs st_training job1 = Some job1_training"
  by (simp add: st_training_def)

lemma report_callback:
  "callback (report s) st_training =
     (st_training\<lparr>jobs := [job1 \<mapsto> job1_training\<lparr>status := js_or s (JStr ''completed''),
        progress := 100, result := Some (Result (JStr ''0.92'') (JStr ''done''))\<rparr>]\<rparr>,
      callback_processed)"
  by (simp add: callback_own[OF report_target st_training_job1] report_members)
     (simp add: st_training_def)

lemma run_reported:
  "run init (accepted @ [CallbackPost (report s)]) =
     st_training\<lparr>jobs := [job1 \<mapsto> job1_training\<lparr>status := js_or s (JStr ''completed''),
        progress := 100, result := Some (Result (JStr ''0.92'') (JStr ''done''))\<rparr>]\<rparr>"
  by (simp add: run_append run_accepted report_callback)

lemma run_completed:
  "run init (accepted @ [CallbackPost (report (JStr ''completed''))]) = st_completed"
  by (simp add: run_reported st_completed_def job1_completed_def js_or_def)

lemma st_completed_job1: "jobs st_completed job1 = Some job1_completed"
  by (simp add: st_completed_def)

lemma report_target_completed: "callback_target st_completed (report s) = Inr (Some job1)"
  by (simp add: callback_target_def get_member_def report_def st_completed_def st_training_def
      jobs_get_def job1_nonempty)

lemma report_status_completed: "get_member (proto st_completed) (report s) ''status'' = s"
  by (simp add: get_member_def report_def st_completed_def st_training_def)

section \<open>C1: when a record has a result\<close>

lemma result_inv_step:
  assumes "result_inv k acc st"
  shows "result_inv k (if creates e k then False else acc \<or> reports st e k) (step st e)"
proof (cases e)
  case (StatusGet q)
  with assms show ?thesis by simp
next
  case (CallbackPost b)
  with assms show ?thesis
    by (auto simp: result_inv_def callback_jobs split: sum.splits option.splits if_splits)
next
  case (UploadPost r jobId)
  with assms show ?thesis
    by (auto simp: result_inv_def upload_post_jobs new_job_def split: if_splits)
next
  case (StorageSettled jobId outcome)
  with assms show ?thesis
    by (auto simp: result_inv_def upload_resume_jobs
        split: option.splits storage_result.splits if_splits)
qed

lemma result_inv_run:
  "result_inv k acc st \<Longrightarrow> result_inv k (reported_since k acc st es) (run st es)"
proof (induction es arbitrary: acc st)
  case Nil
  then show ?case by simp
next
  case (Cons e es)
  from Cons.prems
  have "result_inv k (if creates e k then False else acc \<or> reports st e k) (step st e)"
    by (rule result_inv_step)
  then show ?case using Cons.IH by simp
qed

text \<open>
  C1, as the code has it. After any events from the start of the server, the record of
  a job id has its \<^verbatim>\<open>result\<close> field set if and only if a callback addressing that record
  has been processed since the record was created, whatever status that callback
  reported; and no record has status \<^verbatim>\<open>completed\<close> without a result.
\<close>

theorem result_set_iff_reported:
  assumes "jobs (run init es) k = Some j"
  shows "(result j \<noteq> None \<longleftrightarrow> reported_since k False init es) \<and>
         (status j = JStr ''completed'' \<longrightarrow> result j \<noteq> None)"
proof -
  have "result_inv k False init"
    by (simp add: result_inv_def init_def)
  then have "result_inv k (reported_since k False init es) (run init es)"
    by (rule result_inv_run)
  with assms show ?thesis
    unfolding result_inv_def by blast
qed

text \<open>An upload, its storage and a callback reporting \<^verbatim>\<open>completed\<close>: the record has the
  result, and the callback counts.\<close>

theorem result_set_iff_reported_witness:
  "jobs (run init (accepted @ [CallbackPost (report (JStr ''completed''))])) job1 =
     Some (job1_training\<lparr>status := JStr ''completed'', progress := 100,
        result := Some (Result (JStr ''0.92'') (JStr ''done''))\<rparr>) \<and>
   reported_since job1 False init (accepted @ [CallbackPost (report (JStr ''completed''))])"
proof -
  have j: "jobs (run init (accepted @ [CallbackPost (report (JStr ''completed''))])) job1 =
     Some (job1_training\<lparr>status := JStr ''completed'', progress := 100,
        result := Some (Result (JStr ''0.92'') (JStr ''done''))\<rparr>)"
    by (simp add: run_reported js_or_def)
  from result_set_iff_reported[OF j] j show ?thesis by simp
qed

text \<open>
  C1 as stated fails: the only callback of this run reports \<^verbatim>\<open>error\<close>, no success, and the
  record ends with status \<^verbatim>\<open>error\<close> and a non-empty result.
\<close>

theorem error_status_with_result:
  "map_option status (jobs (run init (accepted @ [CallbackPost (report (JStr ''error''))])) job1) =
     Some (JStr ''error'') \<and>
   map_option result (jobs (run init (accepted @ [CallbackPost (report (JStr ''error''))])) job1) =
     Some (Some (Result (JStr ''0.92'') (JStr ''done'')))"
  by (simp add: run_reported js_or_def)

section \<open>C2: the status of a completed or failed job\<close>

text \<open>
  C2, as the code has it. A job whose status is \<^verbatim>\<open>completed\<close> or \<^verbatim>\<open>error\<close> keeps its whole
  record under every event that does not concern it: status queries, uploads and
  content-store answers for other job ids, callbacks that address another id or none.
  A further callback that addresses it sets its status to the status the handler reads
  from that callback, if truthy, and to \<^verbatim>\<open>completed\<close> otherwise: nothing makes the two
  states final.
\<close>

theorem terminal_status_changes:
  assumes "jobs st k = Some j" and "status j = JStr ''completed'' \<or> status j = JStr ''error''"
  shows "(\<not> touches st e k \<longrightarrow> jobs (step st e) k = Some j) \<and>
         (\<forall>b. e = CallbackPost b \<and> callback_target st b = Inr (Some k) \<longrightarrow>
            map_option status (jobs (step st e) k) =
              Some (if truthy (get_member (proto st) b ''status'')
                    then get_member (proto st) b ''status'' else JStr ''completed''))"
  using assms(1) by (auto simp: step_untouched callback_jobs js_or_def)

text \<open>A completed job under a status query, and under a second callback reporting
  \<^verbatim>\<open>completed\<close>.\<close>

theorem terminal_status_changes_witness:
  "jobs st_completed job1 = Some job1_completed \<and> status job1_completed = JStr ''completed'' \<and>
   jobs (step st_completed (StatusGet job1)) job1 = Some job1_completed \<and>
   map_option status (jobs (step st_completed (CallbackPost (report (JStr ''completed'')))) job1) =
     Some (JStr ''completed'')"
proof -
  have s: "status job1_completed = JStr ''completed'' \<or> status job1_completed = JStr ''error''"
    by (simp add: job1_completed_def)
  have a: "jobs (step st_completed (StatusGet job1)) job1 = Some job1_completed"
    using terminal_status_changes[OF st_completed_job1 s, of "StatusGet job1"] by simp
  have b: "map_option status
             (jobs (step st_completed (CallbackPost (report (JStr ''completed'')))) job1) =
           Some (JStr ''completed'')"
    using terminal_status_changes[OF st_completed_job1 s, of "CallbackPost (report (JStr ''completed''))"]
    by (simp add: report_target_completed report_status_completed)
  from st_completed_job1 a b show ?thesis
    by (simp add: job1_completed_def)
qed

text \<open>
  C2 as stated fails: the job is \<^verbatim>\<open>completed\<close> after the first callback, and a second
  callback reporting \<^verbatim>\<open>training\<close> takes it out of that state.
\<close>

theorem completed_not_terminal:
  "map_option status
     (jobs (run init (accepted @ [CallbackPost (report (JStr ''completed''))])) job1) =
     Some (JStr ''completed'') \<and>
   map_option status
     (jobs (run init (accepted @ [CallbackPost (report (JStr ''completed'')),
        CallbackPost (report (JStr ''training''))])) job1) = Some (JStr ''training'')"
proof -
  have "callback (report (JStr ''training'')) st_completed =
     (st_completed\<lparr>jobs := (jobs st_completed)(job1 \<mapsto>
         job1_completed\<lparr>status := JStr ''training'', progress := 100,
           result := Some (Result (JStr ''0.92'') (JStr ''done''))\<rparr>)\<rparr>, callback_processed)"
    using callback_own[OF report_target_completed st_completed_job1, of "JStr ''training''"]
    by (simp add: st_completed_def get_member_def report_def st_training_def js_or_def)
  then have "map_option status
      (jobs (run st_completed [CallbackPost (report (JStr ''training''))]) job1) =
      Some (JStr ''training'')"
    by simp
  moreover have "run init (accepted @ [CallbackPost (report (JStr ''completed'')),
       CallbackPost (report (JStr ''training''))]) =
     run st_completed [CallbackPost (report (JStr ''training''))]"
    using run_append[of init "accepted @ [CallbackPost (report (JStr ''completed''))]"
        "[CallbackPost (report (JStr ''training''))]"]
    by (simp add: run_completed)
  ultimately show ?thesis
    by (simp add: run_completed st_completed_def job1_completed_def)
qed

section \<open>C3: the local copy of the payload\<close>

text \<open>
  C3 fails on the code. The upload of \<^verbatim>\<open>data.csv\<close> whose content store answers with an
  error ends with the job in \<^verbatim>\<open>error\<close> and the local copy \<^verbatim>\<open>uploads/data.csv\<close> still on
  disk: the \<^verbatim>\<open>catch\<close> block never unlinks. So does the request rejected for its missing
  email. Only the success path removes the file.
\<close>

theorem storage_failure_keeps_local_file:
  "''uploads/data.csv'' \<in> disk (run init [UploadPost upload1 job1,
      StorageSettled job1 (StorageError ''Bucket not found'')]) \<and>
   map_option status (jobs (run init [UploadPost upload1 job1,
      StorageSettled job1 (StorageError ''Bucket not found'')]) job1) = Some (JStr ''error'') \<and>
   ''uploads/data.csv'' \<in> disk (run init [UploadPost no_email job1]) \<and>
   ''uploads/data.csv'' \<notin> disk (run init [UploadPost upload1 job1,
      StorageSettled job1 (Stored ''https://store/data.csv'')])"
  by (simp add: init_def upload_post_def multer_fields_def upload_begin_def
      upload_resume_def upload_catch_def new_job_def jobs_get_def
      assign_members_def upload1_def no_email_def Let_def)

section \<open>C4: a valid upload is registered\<close>

text \<open>
  C4, as the code has it. A request with a \<^verbatim>\<open>csv\<close> file and a non-empty email, for which
  \<^verbatim>\<open>uuidv4()\<close> generated the id \<open>jobId\<close>: the handler writes the record (status
  \<^verbatim>\<open>uploading\<close>, progress 10) before it suspends on the content store, with no trigger
  sent yet; and whatever the server handles in between (anything but this upload's own
  events) and whatever the content store answers, the handler then responds, with the
  record present under the generated id: either the 200 response, which returns that
  very id, with status \<^verbatim>\<open>training\<close>, or the 500 response, which returns no job id, with
  status \<^verbatim>\<open>error\<close>.
\<close>

theorem valid_upload_registers_job:
  assumes "csv_originalname r = Some n" and "truthy (body_email r)" and "is_uuid jobId"
  shows "\<exists>st1 p. upload_post r jobId st = (st1, Awaiting p) \<and>
           jobs st1 jobId = Some (new_job jobId (body_email r)) \<and> outbox st1 = outbox st \<and>
           (\<forall>es outcome. (\<forall>e \<in> set es. \<not> concerns_upload e jobId) \<longrightarrow>
              (\<exists>st2 resp j. upload_resume jobId outcome (run st1 es) = (st2, Some resp) \<and>
                 jobs st2 jobId = Some j \<and>
                 (code resp = 200 \<and> returned_job_id resp = JStr jobId \<and>
                    status j = JStr ''training'' \<or>
                  code resp = 500 \<and> returned_job_id resp = JUndefined \<and>
                    status j = JStr ''error'')))"
proof -
  let ?st1 = "st\<lparr>disk := insert (''uploads/'' @ n) (disk st),
         jobs := (jobs st)(jobId \<mapsto> new_job jobId (body_email r)),
         pending := (pending st)(jobId \<mapsto> (''uploads/'' @ n, body_email r))\<rparr>"
  have post: "upload_post r jobId st = (?st1, Awaiting (''uploads/'' @ n))"
    using assms(1,2) by (rule upload_post_valid)
  have later: "\<exists>st2 resp j. upload_resume jobId outcome (run ?st1 es) = (st2, Some resp) \<and>
                 jobs st2 jobId = Some j \<and>
                 (code resp = 200 \<and> returned_job_id resp = JStr jobId \<and>
                    status j = JStr ''training'' \<or>
                  code resp = 500 \<and> returned_job_id resp = JUndefined \<and>
                    status j = JStr ''error'')"
    if quiet: "\<forall>e \<in> set es. \<not> concerns_upload e jobId" for es outcome
  proof -
    have "jobs (run ?st1 es) jobId \<noteq> None \<and>
          pending (run ?st1 es) jobId = Some (''uploads/'' @ n, body_email r)"
      using quiet by (intro run_suspended) simp_all
    then obtain j0 where "jobs (run ?st1 es) jobId = Some j0"
      and "pending (run ?st1 es) jobId = Some (''uploads/'' @ n, body_email r)"
      by auto
    from upload_resume_suspended[OF this(2,1), of outcome]
    obtain st2 resp j where res: "upload_resume jobId outcome (run ?st1 es) = (st2, Some resp)"
      and j: "jobs st2 jobId = Some j"
      and alt: "resp = upload_complete jobId \<and> status j = JStr ''training'' \<or>
                (\<exists>m. resp = upload_failed m) \<and> status j = JStr ''error''"
      by blast
    from alt have "code resp = 200 \<and> returned_job_id resp = JStr jobId \<and>
                     status j = JStr ''training'' \<or>
                   code resp = 500 \<and> returned_job_id resp = JUndefined \<and>
                     status j = JStr ''error''"
      by auto
    with res j show ?thesis
      by blast
  qed
  show ?thesis
    using post later by simp
qed

text \<open>The upload of \<^verbatim>\<open>data.csv\<close>, a status query while it is stored, and a content store
  that accepts it: the 200 response returns the id under which the record is.\<close>

theorem valid_upload_registers_job_witness:
  "csv_originalname upload1 = Some ''data.csv'' \<and> truthy (body_email upload1) \<and> is_uuid job1 \<and>
   (\<exists>st1 p. upload_post upload1 job1 init = (st1, Awaiting p) \<and>
      map_option status (jobs st1 job1) = Some (JStr ''uploading'') \<and>
      (\<exists>st2 resp j. upload_resume job1 (Stored ''https://store/data.csv'')
                       (run st1 [StatusGet job1]) = (st2, Some resp) \<and>
         jobs st2 job1 = Some j \<and>
         (code resp = 200 \<and> returned_job_id resp = JStr job1 \<and> status j = JStr ''training'' \<or>
          code resp = 500 \<and> returned_job_id resp = JUndefined \<and> status j = JStr ''error'')))"
proof -
  have a: "csv_originalname upload1 = Some ''data.csv''"
    by (simp add: upload1_def)
  have b: "truthy (body_email upload1)"
    by (simp add: upload1_def)
  from valid_upload_registers_job[OF a b job1_is_uuid, of init]
  obtain st1 p where 1: "upload_post upload1 job1 init = (st1, Awaiting p)"
    and 2: "jobs st1 job1 = Some (new_job job1 (body_email upload1))"
    and 3: "\<forall>es outcome. (\<forall>e \<in> set es. \<not> concerns_upload e job1) \<longrightarrow>
              (\<exists>st2 resp j. upload_resume job1 outcome (run st1 es) = (st2, Some resp) \<and>
                 jobs st2 job1 = Some j \<and>
                 (code resp = 200 \<and> returned_job_id resp = JStr job1 \<and>
                    status j = JStr ''training'' \<or>
                  code resp = 500 \<and> returned_job_id resp = JUndefined \<and>
                    status j = JStr ''error''))"
    by blast
  have "\<forall>e \<in> set [StatusGet job1]. \<not> concerns_upload e job1"
    by simp
  with 3 have "\<exists>st2 resp j. upload_resume job1 (Stored ''https://store/data.csv'')
                 (run st1 [StatusGet job1]) = (st2, Some resp) \<and>
         jobs st2 job1 = Some j \<and>
         (code resp = 200 \<and> returned_job_id resp = JStr job1 \<and> status j = JStr ''training'' \<or>
          code resp = 500 \<and> returned_job_id resp = JUndefined \<and> status j = JStr ''error'')"
    by blast
  with 1 2 a b job1_is_uuid show ?thesis
    by (simp add: new_job_def)
qed

text \<open>
  C4 as stated fails where it lets the returned job id have status \<^verbatim>\<open>error\<close>: when the
  content store fails, the response is the 500 one, whose body has the members
  \<^verbatim>\<open>status\<close>, \<^verbatim>\<open>message\<close> and \<^verbatim>\<open>detail\<close> and returns no job id; the record in \<^verbatim>\<open>error\<close> is
  under the id that was generated and never told to the caller.
\<close>

theorem failed_upload_returns_no_id:
  "snd (upload_resume job1 (StorageError ''Bucket not found'')
          (fst (upload_post upload1 job1 init))) =
     Some (upload_failed ''Supabase upload failed: Bucket not found'') \<and>
   upload_failed ''Supabase upload failed: Bucket not found'' =
     Response 500 (JsonBody (JObj [(''status'', JStr ''error''),
       (''message'', JStr ''Upload process failed: Supabase upload failed: Bucket not found''),
       (''detail'', JNull)])) \<and>
   returned_job_id (upload_failed ''Supabase upload failed: Bucket not found'') = JUndefined \<and>
   map_option status
     (jobs (fst (upload_resume job1 (StorageError ''Bucket not found'')
                   (fst (upload_post upload1 job1 init)))) job1) = Some (JStr ''error'')"
  by (simp add: init_def upload_post_def multer_fields_def upload_begin_def
      upload_resume_def upload_catch_def new_job_def jobs_get_def
      assign_members_def upload1_def upload_failed_def own_member_def Let_def)

section \<open>C5: ids that were never created\<close>

text \<open>
  What holds: for an id that \<^verbatim>\<open>jobs\<close> does not own and \<^verbatim>\<open>Object.prototype\<close> does not
  define, the status query answers 404 and a callback carrying the id answers success
  and changes nothing.
\<close>

lemma unknown_id_benign:
  assumes "jobs st k = None" and "k \<noteq> ''__proto__''" and "proto st k = None"
  shows "status_query k st = job_not_found"
    and "b \<noteq> JUndefined \<Longrightarrow> b \<noteq> JNull \<Longrightarrow> get_member (proto st) b ''jobId'' = JStr k \<Longrightarrow>
           callback b st = (st, callback_processed)"
  using assms
  by (auto simp: status_query_def jobs_get_def callback_def callback_target_def)

text \<open>
  The handlers add to \<^verbatim>\<open>Object.prototype\<close> no other names than the ones they assign, so
  an id of \<^verbatim>\<open>uuidv4()\<close> is never inherited: for such an id that has no record, in any
  state the server reaches, the status handler answers 404 and the callback handler,
  given a body with that id, answers success and changes nothing. This is about the two
  handlers, once a request is given to them, not about the middleware before them.
\<close>

lemma assign_members_proto_dom:
  assumes "fst ` set kvs \<subseteq> written_names"
  shows "dom (proto (assign_members k f kvs st)) \<subseteq> dom (proto st) \<union> written_names"
proof -
  have "dom (foldl (\<lambda>P (n, x). P(n \<mapsto> x)) P kvs) \<subseteq> dom P \<union> fst ` set kvs" for P
  proof (induction kvs arbitrary: P)
    case Nil
    then show ?case by simp
  next
    case (Cons a kvs)
    obtain n x where a: "a = (n, x)" by (cases a)
    have "dom (foldl (\<lambda>P (n, x). P(n \<mapsto> x)) (P(n \<mapsto> x)) kvs) \<subseteq> dom (P(n \<mapsto> x)) \<union> fst ` set kvs"
      by (rule Cons.IH)
    then have "dom (foldl (\<lambda>P (n, x). P(n \<mapsto> x)) (P(n \<mapsto> x)) kvs) \<subseteq> dom P \<union> insert n (fst ` set kvs)"
      by auto
    then show ?case
      unfolding a by (simp only: foldl_Cons prod.case list.set image_insert fst_conv)
  qed
  then have "dom (foldl (\<lambda>P (n, x). P(n \<mapsto> x)) (proto st) kvs) \<subseteq> dom (proto st) \<union> written_names"
    using assms by blast
  then show ?thesis
    by (auto simp: assign_members_def split: option.splits if_splits)
qed

lemma step_proto_dom: "dom (proto (step st e)) \<subseteq> dom (proto st) \<union> written_names"
proof (cases e)
  case (StatusGet q)
  then show ?thesis by auto
next
  case (CallbackPost b)
  have "dom (proto (assign_result k s dm msg st)) \<subseteq> dom (proto st) \<union> written_names" for k s dm msg
    unfolding assign_result_def by (rule assign_members_proto_dom) (simp add: written_names_def)
  with CallbackPost show ?thesis
    by (auto simp: callback_def split: sum.splits option.splits)
next
  case (UploadPost r jobId)
  have "proto (fst (upload_post r jobId st)) = proto st"
    by (auto simp: upload_post_def multer_fields_def upload_begin_def upload_catch_def Let_def
        jobs_get_def assign_members_def split: option.splits)
  with UploadPost show ?thesis by auto
next
  case (StorageSettled jobId outcome)
  have c: "dom (proto (fst (upload_catch k m s))) \<subseteq> dom (proto s) \<union> written_names" for k m s
    using assign_members_proto_dom[of "[(''status'', JStr ''error''), (''message'', JStr m)]" k _ s]
    by (auto simp: upload_catch_def written_names_def)
  have t: "dom (proto (assign_members k f [(''status'', JStr ''training''), (''progress'', JNum ''40'')] s))
            \<subseteq> dom (proto s) \<union> written_names" for k f s
    by (rule assign_members_proto_dom) (simp add: written_names_def)
  show ?thesis
  proof (cases "pending st jobId")
    case None
    with StorageSettled show ?thesis by (auto simp: upload_resume_def)
  next
    case (Some c0)
    obtain p em where c0: "c0 = (p, em)" by (cases c0)
    let ?st0 = "st\<lparr>pending := (pending st)(jobId := None)\<rparr>"
    have p0: "proto ?st0 = proto st" by simp
    show ?thesis
    proof (cases outcome)
      case (Stored u)
      show ?thesis
      proof (cases "set_error (jobs_get ?st0 jobId)")
        case None
        with StorageSettled Some c0 Stored t[of jobId _ ?st0] show ?thesis
          by (simp add: upload_resume_def Let_def)
      next
        case (Some m)
        with StorageSettled \<open>pending st jobId = Some c0\<close> c0 Stored c[of jobId m ?st0] show ?thesis
          by (simp add: upload_resume_def Let_def)
      qed
    next
      case (StorageError m)
      with StorageSettled Some c0 c[of jobId _ ?st0] show ?thesis
        by (simp add: upload_resume_def Let_def)
    next
      case (StorageRejected m)
      with StorageSettled Some c0 c[of jobId m ?st0] show ?thesis
        by (simp add: upload_resume_def Let_def)
    qed
  qed
qed

lemma run_proto_dom: "dom (proto (run st es)) \<subseteq> dom (proto st) \<union> written_names"
proof (induction es arbitrary: st)
  case Nil
  then show ?case by simp
next
  case (Cons e es)
  have "dom (proto (run (step st e) es)) \<subseteq> dom (proto (step st e)) \<union> written_names"
    by (rule Cons.IH)
  then show ?case using step_proto_dom[of st e] unfolding run_Cons by blast
qed

lemma uuid_not_inherited:
  assumes "is_uuid k"
  shows "k \<noteq> ''__proto__''" and "k \<notin> dom object_prototype \<union> written_names"
proof -
  from assms have len: "length k = 36" by (simp add: is_uuid_def)
  then show "k \<noteq> ''__proto__''" by auto
  have short: "\<forall>n \<in> dom object_prototype \<union> written_names. length n < 36"
    by (simp add: object_prototype_def written_names_def dom_map_of_conv_image_fst)
  show "k \<notin> dom object_prototype \<union> written_names"
  proof
    assume "k \<in> dom object_prototype \<union> written_names"
    with short have "length k < 36" by blast
    with len show False by simp
  qed
qed

lemma never_created_uuid_benign:
  assumes "is_uuid k" and "jobs (run init es) k = None"
  shows "status_query k (run init es) = job_not_found"
    and "map_of (own_props b) ''jobId'' = Some (JStr k) \<Longrightarrow> b \<noteq> JUndefined \<Longrightarrow> b \<noteq> JNull \<Longrightarrow>
           callback b (run init es) = (run init es, callback_processed)"
proof -
  have "k \<notin> dom (proto (run init es))"
    using run_proto_dom[of init es] uuid_not_inherited(2)[OF assms(1)] by (auto simp: init_def)
  then have p: "proto (run init es) k = None" by auto
  note n = uuid_not_inherited(1)[OF assms(1)]
  show "status_query k (run init es) = job_not_found"
    using assms(2) n p by (rule unknown_id_benign(1))
  show "callback b (run init es) = (run init es, callback_processed)"
    if "map_of (own_props b) ''jobId'' = Some (JStr k)" "b \<noteq> JUndefined" "b \<noteq> JNull"
    using unknown_id_benign(2)[OF assms(2) n p that(2,3)] that(1)
    by (simp add: get_member_def)
qed

text \<open>
  C5 fails on the code for the ids that \<^verbatim>\<open>jobs\<close> inherits. On the server as started, no
  job was ever created under \<^verbatim>\<open>__proto__\<close> or \<^verbatim>\<open>constructor\<close>, yet the status query finds
  them (200, not 404); and the callback \<^verbatim>\<open>{jobId: "__proto__", status: "pwned"}\<close>, answered
  with success, writes \<^verbatim>\<open>status\<close> into \<^verbatim>\<open>Object.prototype\<close>, after which a callback
  without status for a real job stores \<^verbatim>\<open>pwned\<close>.
\<close>

theorem inherited_id_found:
  "jobs init ''__proto__'' = None \<and> jobs init ''constructor'' = None \<and>
   status_query ''__proto__'' init = Response 200 PrototypeBody \<and>
   status_query ''constructor'' init = Response 200 (JsonBody (JFn ''Object'' [])) \<and>
   snd (callback pollute init) = callback_processed \<and>
   proto init ''status'' = None \<and>
   proto (fst (callback pollute init)) ''status'' = Some (JStr ''pwned'') \<and>
   map_option status
     (jobs (run st_training [CallbackPost pollute, CallbackPost (JObj [(''jobId'', JStr job1)])])
        job1) = Some (JStr ''pwned'')"
  by (simp add: init_def st_training_def job1_training_def callback_def callback_target_def
      get_member_def js_or_def jobs_get_def status_query_def assign_result_def
      assign_members_def object_prototype_def pollute_def job1_def result_object_def)

section \<open>C6: a callback applied twice\<close>

text \<open>
  C6. For a callback body that addresses a record of the registry, handling the body a
  second time gives the state and the response of handling it once, and the response
  is the success response.
\<close>

theorem callback_idempotent:
  assumes "callback_target st b = Inr (Some k)" and "jobs st k = Some j"
  shows "callback b (fst (callback b st)) = callback b st \<and>
         snd (callback b st) = callback_processed"
proof -
  let ?j' = "j\<lparr>status := js_or (get_member (proto st) b ''status'') (JStr ''completed''),
          progress := 100,
          result := Some (Result (get_member (proto st) b ''display_metric'')
                                 (get_member (proto st) b ''message''))\<rparr>"
  let ?st' = "st\<lparr>jobs := (jobs st)(k \<mapsto> ?j')\<rparr>"
  have once: "callback b st = (?st', callback_processed)"
    using assms by (rule callback_own)
  have target: "callback_target ?st' b = Inr (Some k)"
    using assms(1) by (rule callback_target_jobs_upd)
  have own: "jobs ?st' k = Some ?j'"
    by simp
  have "callback b ?st' = (?st', callback_processed)"
    by (simp add: callback_own[OF target own])
  with once show ?thesis
    by simp
qed

text \<open>The callback of scenario D, handled twice on the job in training.\<close>

theorem callback_idempotent_witness:
  "callback_target st_training (report (JStr ''completed'')) = Inr (Some job1) \<and>
   jobs st_training job1 = Some job1_training \<and>
   callback (report (JStr ''completed''))
       (fst (callback (report (JStr ''completed'')) st_training)) =
     callback (report (JStr ''completed'')) st_training \<and>
   map_option status (jobs (fst (callback (report (JStr ''completed'')) st_training)) job1) =
     Some (JStr ''completed'')"
  using callback_idempotent[OF report_target st_training_job1, of "JStr ''completed''"]
  by (simp add: report_target st_training_job1 report_callback js_or_def)

section \<open>C7: what a callback writes\<close>

text \<open>
  C7, as the code has it. For a callback that addresses a record of the registry, on a
  server whose \<^verbatim>\<open>Object.prototype\<close> has no \<^verbatim>\<open>status\<close>, \<^verbatim>\<open>display_metric\<close> or \<^verbatim>\<open>message\<close>
  property (as it is when the server starts), the handler sets the status to the body's
  \<^verbatim>\<open>status\<close> member when that
  value is truthy, and to \<^verbatim>\<open>completed\<close> when the member is absent or otherwise falsy
  (\<^verbatim>\<open>null\<close>, \<^verbatim>\<open>false\<close>, \<^verbatim>\<open>0\<close>, \<^verbatim>\<open>NaN\<close>, the empty string); it sets progress to 100 and
  the result to the body's \<^verbatim>\<open>display_metric\<close> and \<^verbatim>\<open>message\<close> members.
\<close>

theorem callback_sets_record:
  assumes "callback_target st b = Inr (Some k)" and "jobs st k = Some j"
    and "proto st ''status'' = None" and "proto st ''display_metric'' = None"
    and "proto st ''message'' = None"
  shows "jobs (fst (callback b st)) k =
     Some (j\<lparr>status := (if truthy (own_member b ''status'')
                        then own_member b ''status'' else JStr ''completed''),
             progress := 100,
             result := Some (Result (own_member b ''display_metric'')
                                    (own_member b ''message''))\<rparr>)"
  using assms by (simp add: callback_own js_or_def get_member_own)

text \<open>Scenario D of the specification, and the same callback without a status member.\<close>

theorem callback_sets_record_witness:
  "callback_target st_training (report (JStr ''completed'')) = Inr (Some job1) \<and>
   jobs st_training job1 = Some job1_training \<and>
   proto st_training ''status'' = None \<and> proto st_training ''display_metric'' = None \<and>
   proto st_training ''message'' = None \<and>
   jobs (fst (callback (report (JStr ''completed'')) st_training)) job1 =
     Some (job1_training\<lparr>status := JStr ''completed'', progress := 100,
        result := Some (Result (JStr ''0.92'') (JStr ''done''))\<rparr>) \<and>
   jobs (fst (callback (report JUndefined) st_training)) job1 =
     Some (job1_training\<lparr>status := JStr ''completed'', progress := 100,
        result := Some (Result (JStr ''0.92'') (JStr ''done''))\<rparr>)"
proof -
  have p: "proto st_training ''status'' = None" "proto st_training ''display_metric'' = None"
    "proto st_training ''message'' = None"
    by (simp_all add: st_training_def)
  have m: "own_member (report s) ''status'' = s"
    "own_member (report s) ''display_metric'' = JStr ''0.92''"
    "own_member (report s) ''message'' = JStr ''done''" for s
    by (simp_all add: own_member_def report_def)
  from callback_sets_record[OF report_target st_training_job1 p, of "JStr ''completed''"]
    callback_sets_record[OF report_target st_training_job1 p, of JUndefined]
  show ?thesis
    by (simp add: report_target st_training_job1 p m)
qed

text \<open>
  C7 as stated fails: a reported status that is present but falsy, the empty string or
  \<^verbatim>\<open>false\<close>, is not stored; the record gets \<^verbatim>\<open>completed\<close>.
\<close>

theorem falsy_status_defaults:
  "map_option status (jobs (fst (callback (report (JStr [])) st_training)) job1) =
     Some (JStr ''completed'') \<and>
   map_option status (jobs (fst (callback (report (JStr [])) st_training)) job1) \<noteq>
     Some (JStr []) \<and>
   map_option status (jobs (fst (callback (report (JBool False)) st_training)) job1) =
     Some (JStr ''completed'') \<and>
   map_option status (jobs (fst (callback (report (JBool False)) st_training)) job1) \<noteq>
     Some (JBool False)"
  by (simp add: report_callback js_or_def)

section \<open>C8: an invalid upload\<close>

text \<open>
  C8. An upload request without a \<^verbatim>\<open>csv\<close> file, or without an email (absent or empty),
  is answered with 400, and the registry is as before: no record is created, no
  handler is left suspended, no trigger is sent.
\<close>

theorem invalid_upload_rejected:
  assumes "csv_originalname r = None \<or> \<not> truthy (body_email r)"
  shows "\<exists>resp. snd (upload_post r jobId st) = Responded resp \<and> code resp = 400 \<and>
           jobs (fst (upload_post r jobId st)) = jobs st \<and>
           pending (fst (upload_post r jobId st)) = pending st \<and>
           outbox (fst (upload_post r jobId st)) = outbox st"
  using assms
  by (auto simp: upload_post_def multer_fields_def upload_begin_def split: option.splits)

text \<open>Scenario B of the specification: an upload with no email.\<close>

theorem invalid_upload_rejected_witness:
  "(csv_originalname no_email = None \<or> \<not> truthy (body_email no_email)) \<and>
   (\<exists>resp. snd (upload_post no_email job1 st_training) = Responded resp \<and> code resp = 400 \<and>
      jobs (fst (upload_post no_email job1 st_training)) = jobs st_training)"
proof -
  have h: "csv_originalname no_email = None \<or> \<not> truthy (body_email no_email)"
    by (simp add: no_email_def)
  from invalid_upload_rejected[OF h, of job1 st_training] h show ?thesis
    by blast
qed

section \<open>C9: progress never goes down\<close>

lemma progress_inv_le:
  "progress_inv st \<Longrightarrow> jobs st k = Some j \<Longrightarrow> progress j \<le> 100"
  unfolding progress_inv_def by fastforce

lemma progress_inv_pending:
  "progress_inv st \<Longrightarrow> jobs st k = Some j \<Longrightarrow> pending st k = Some c \<Longrightarrow> progress j = 10"
  unfolding progress_inv_def by fastforce

lemma progress_inv_step:
  assumes "progress_inv st" and "in_order st e"
  shows "progress_inv (step st e)"
proof (cases e)
  case (StatusGet q)
  with assms show ?thesis by simp
next
  case (CallbackPost b)
  with assms show ?thesis
    by (auto simp: progress_inv_def callback_jobs split: sum.splits option.splits if_splits)
next
  case (UploadPost r jobId)
  with assms show ?thesis
    by (auto simp: progress_inv_def upload_post_jobs upload_post_pending new_job_def
        split: option.splits if_splits)
next
  case (StorageSettled jobId outcome)
  with assms show ?thesis
    by (auto simp: progress_inv_def upload_resume_jobs upload_resume_pending
        split: option.splits storage_result.splits if_splits)
qed

lemma progress_step:
  assumes "progress_inv st" and "in_order st e" and "jobs st k = Some j"
  shows "\<exists>j'. jobs (step st e) k = Some j' \<and> progress j \<le> progress j'"
proof (cases e)
  case (StatusGet q)
  with assms show ?thesis by simp
next
  case (CallbackPost b)
  have "progress j \<le> 100"
    using assms(1,3) by (rule progress_inv_le)
  with CallbackPost assms(3) show ?thesis
    by (auto simp: callback_jobs split: sum.splits option.splits)
next
  case (UploadPost r jobId)
  with assms(2,3) show ?thesis
    by (auto simp: upload_post_jobs)
next
  case (StorageSettled jobId outcome)
  show ?thesis
  proof (cases "jobId = k \<and> pending st k \<noteq> None")
    case True
    then have "progress j = 10"
      using assms(1,3) by (auto dest: progress_inv_pending)
    with StorageSettled True assms(3) show ?thesis
      by (auto simp: upload_resume_jobs split: option.splits storage_result.splits)
  next
    case False
    with StorageSettled assms(3) show ?thesis
      by (auto simp: upload_resume_jobs split: option.splits storage_result.splits)
  qed
qed

lemma progress_inv_run:
  assumes "progress_inv st" and "orderly st es"
  shows "progress_inv (run st es)"
  using assms
proof (induction es arbitrary: st)
  case Nil
  then show ?case by simp
next
  case (Cons e es)
  then show ?case by (simp add: progress_inv_step)
qed

lemma progress_run:
  assumes "progress_inv st" and "orderly st es" and "jobs st k = Some j"
  shows "\<exists>j'. jobs (run st es) k = Some j' \<and> progress j \<le> progress j'"
  using assms
proof (induction es arbitrary: st j)
  case Nil
  then show ?case by simp
next
  case (Cons e es)
  from Cons.prems have ord: "in_order st e" and rest: "orderly (step st e) es"
    by simp_all
  have inv': "progress_inv (step st e)"
    using Cons.prems(1) ord by (rule progress_inv_step)
  obtain j1 where j1: "jobs (step st e) k = Some j1" and le1: "progress j \<le> progress j1"
    using progress_step[OF Cons.prems(1) ord Cons.prems(3)] by blast
  from Cons.IH[OF inv' rest j1] le1 show ?case
    by auto
qed

lemma orderly_append:
  "orderly st (es1 @ es2) = (orderly st es1 \<and> orderly (run st es1) es2)"
  by (induction es1 arbitrary: st) simp_all

text \<open>
  For contrast, outside correct operation: a callback that names the job while its
  upload handler is still suspended puts the progress at 100, and the handler, once the
  content store has answered, puts it back to 40.
\<close>

lemma early_callback_lowers_progress:
  "map_option progress (jobs (run init [UploadPost upload1 job1, CallbackPost (report JUndefined)])
     job1) = Some 100 \<and>
   map_option progress (jobs (run init [UploadPost upload1 job1, CallbackPost (report JUndefined),
     StorageSettled job1 (Stored ''https://store/data.csv'')]) job1) = Some 40"
  by (simp add: init_def upload_post_def multer_fields_def upload_begin_def upload_resume_def
      new_job_def jobs_get_def assign_members_def assign_result_def upload1_def callback_def
      callback_target_def get_member_def report_def job1_def js_or_def Let_def)

text \<open>
  C9. Under correct operation (every upload gets a fresh id, and a job is reported on
  only after its upload handler has finished), the progress of a job never goes down:
  from any point of a run to any later point the progress of each record is the same
  or higher, and it is one of 10, 40 and 100.
\<close>

theorem progress_monotone:
  assumes "orderly init (es1 @ es2)" and "jobs (run init es1) k = Some j"
  shows "\<exists>j'. jobs (run init (es1 @ es2)) k = Some j' \<and> progress j \<le> progress j' \<and>
           progress j \<in> {10, 40, 100} \<and> progress j' \<in> {10, 40, 100}"
proof -
  have i0: "progress_inv init"
    by (simp add: progress_inv_def init_def)
  from assms(1) have o1: "orderly init es1" and o2: "orderly (run init es1) es2"
    by (simp_all add: orderly_append)
  have i1: "progress_inv (run init es1)"
    using i0 o1 by (rule progress_inv_run)
  have i2: "progress_inv (run init (es1 @ es2))"
    using i0 assms(1) by (rule progress_inv_run)
  from progress_run[OF i1 o2 assms(2)] obtain j' where
    j': "jobs (run init (es1 @ es2)) k = Some j'" and le: "progress j \<le> progress j'"
    by (auto simp: run_append)
  have "progress j \<in> {10, 40, 100}"
    using i1 assms(2) unfolding progress_inv_def by blast
  moreover have "progress j' \<in> {10, 40, 100}"
    using i2 j' unfolding progress_inv_def by blast
  ultimately show ?thesis
    using j' le by blast
qed

text \<open>An upload, its storage, then the callback: 40 before the callback, 100 after.\<close>

theorem progress_monotone_witness:
  "orderly init (accepted @ [CallbackPost (report (JStr ''completed''))]) \<and>
   jobs (run init accepted) job1 = Some job1_training \<and> progress job1_training = 40 \<and>
   (\<exists>j'. jobs (run init (accepted @ [CallbackPost (report (JStr ''completed''))])) job1 = Some j' \<and>
      40 \<le> progress j')"
proof -
  have "orderly init accepted"
    by (simp add: accepted_def job1_is_uuid init_def)
  moreover have "orderly st_training [CallbackPost (report (JStr ''completed''))]"
    by (simp add: report_target) (simp add: st_training_def)
  ultimately have o: "orderly init (accepted @ [CallbackPost (report (JStr ''completed''))])"
    by (simp add: orderly_append run_accepted)
  have j: "jobs (run init accepted) job1 = Some job1_training"
    by (simp add: run_accepted st_training_job1)
  have p: "progress job1_training = 40"
    by (simp add: job1_training_def)
  from progress_monotone[OF o j] o j p show ?thesis
    by auto
qed

section \<open>C10: the status of a callback is not validated\<close>

text \<open>
  C10. For a callback that addresses a record of the registry and whose body has a
  \<^verbatim>\<open>status\<close> member that is a non-empty string, the stored status becomes exactly that
  string, whatever it is: the registry can hold a status outside the documented four.
\<close>

theorem callback_status_unvalidated:
  assumes "callback_target st b = Inr (Some k)" and "jobs st k = Some j"
    and "map_of (own_props b) ''status'' = Some (JStr s)" and "s \<noteq> []"
  shows "map_option status (jobs (fst (callback b st)) k) = Some (JStr s)"
  using assms by (simp add: callback_own js_or_def get_member_def)

text \<open>The status \<^verbatim>\<open>paused\<close>, which is none of the documented ones, is stored as it is.\<close>

theorem callback_status_unvalidated_witness:
  "callback_target st_training (report (JStr ''paused'')) = Inr (Some job1) \<and>
   jobs st_training job1 = Some job1_training \<and>
   map_of (own_props (report (JStr ''paused''))) ''status'' = Some (JStr ''paused'') \<and>
   map_option status (jobs (fst (callback (report (JStr ''paused'')) st_training)) job1) =
     Some (JStr ''paused'') \<and>
   JStr ''paused'' \<notin> documented_statuses"
proof -
  have m: "map_of (own_props (report (JStr ''paused''))) ''status'' = Some (JStr ''paused'')"
    by (simp add: report_def)
  have n: "''paused'' \<noteq> []"
    by simp
  from callback_status_unvalidated[OF report_target st_training_job1 m n] m
  show ?thesis
    by (simp add: report_target st_training_job1 documented_statuses_def)
qed

end
